theory Spec2Isabelle
  imports Complex_Main "HOL-Library.Word"
begin

section \<open>Python values, failures and the per-axis tuple\<close>

text \<open>
  The engine is the class \<open>NPerlin\<close> of \<open>src/nPerlin.py\<close>.  Python raises; the model
  returns \<open>Inl\<close> of the exception.  numpy's float64 arithmetic is modelled as the
  arithmetic of the reals.  The two narrowing conversions of the pipeline are modelled
  as such: the store into the float32 array of \<open>formatCoords\<close> as a rounding function
  \<open>f32\<close> that the model takes as an argument, and \<open>astype(np.uint16)\<close> as a 16-bit
  word.
\<close>

datatype error = AssertionError | TypeError | ValueError | IndexError | ZeroDivisionError

definition ebind :: "error + 'a \<Rightarrow> ('a \<Rightarrow> error + 'b) \<Rightarrow> error + 'b" where
  "ebind m f = (case m of Inl e \<Rightarrow> Inl e | Inr x \<Rightarrow> f x)"

fun sequence_e :: "(error + 'a) list \<Rightarrow> error + 'a list" where
  "sequence_e [] = Inr []"
| "sequence_e (m # ms) = ebind m (\<lambda>x. ebind (sequence_e ms) (\<lambda>xs. Inr (x # xs)))"

text \<open>The arguments of the constructor and of the setters are untyped Python objects.\<close>

datatype pyval =
    VNone
  | VBool bool
  | VInt int
  | VFloat real
  | VStr string
  | VWarp "real \<Rightarrow> real"
  | VTuple "pyval list"
  | VList "pyval list"

text \<open>\<open>isinstance(v, int)\<close>: \<open>bool\<close> is a subclass of \<open>int\<close>.\<close>

fun isinstance_int :: "pyval \<Rightarrow> bool" where
  "isinstance_int (VInt n) = True"
| "isinstance_int (VBool b) = True"
| "isinstance_int v = False"

text \<open>\<open>isinstance(v, (int, float))\<close>.\<close>

fun isinstance_int_float :: "pyval \<Rightarrow> bool" where
  "isinstance_int_float (VInt n) = True"
| "isinstance_int_float (VBool b) = True"
| "isinstance_int_float (VFloat x) = True"
| "isinstance_int_float v = False"

fun isinstance_Warp :: "pyval \<Rightarrow> bool" where
  "isinstance_Warp (VWarp w) = True"
| "isinstance_Warp v = False"

fun int_of :: "pyval \<Rightarrow> int" where
  "int_of (VInt n) = n"
| "int_of (VBool b) = of_bool b"
| "int_of v = 0"

fun num_of :: "pyval \<Rightarrow> real" where
  "num_of (VInt n) = real_of_int n"
| "num_of (VBool b) = of_bool b"
| "num_of (VFloat x) = x"
| "num_of v = 0"

fun warp_of :: "pyval \<Rightarrow> real \<Rightarrow> real" where
  "warp_of (VWarp w) = w"
| "warp_of v = (\<lambda>t. t)"

text \<open>\<open>v > k\<close> for an integer literal \<open>k\<close>: a number compares, anything else raises TypeError.\<close>

fun py_gt :: "pyval \<Rightarrow> int \<Rightarrow> error + bool" where
  "py_gt (VInt n) k = Inr (k < n)"
| "py_gt (VBool b) k = Inr (k < of_bool b)"
| "py_gt (VFloat x) k = Inr (real_of_int k < x)"
| "py_gt v k = Inl TypeError"

text \<open>\<open>len(v)\<close>.\<close>

fun py_len :: "pyval \<Rightarrow> error + nat" where
  "py_len (VTuple vs) = Inr (length vs)"
| "py_len (VList vs) = Inr (length vs)"
| "py_len (VStr cs) = Inr (length cs)"
| "py_len v = Inl TypeError"

text \<open>\<open>v[i]\<close> for \<open>i\<close> in range (the callers check the length first).\<close>

fun py_item :: "pyval \<Rightarrow> nat \<Rightarrow> pyval" where
  "py_item (VTuple vs) i = vs ! i"
| "py_item (VList vs) i = vs ! i"
| "py_item (VStr cs) i = VStr [cs ! i]"
| "py_item v i = VNone"

text \<open>
  Modelled from the spec: \<open>NTuple\<close> of \<open>tools\<close>, the PerAxisParameters container, is
  not among the sources.  The spec gives it as an ordered sequence whose index access
  beyond the declared length repeats the last declared value, with elementwise scalar
  multiplication; a negative index counts from the end as for any Python tuple.  An empty
  container has no last value to repeat.
\<close>

definition nt_get :: "'a list \<Rightarrow> int \<Rightarrow> error + 'a" where
  "nt_get xs i =
     (if xs = [] then Inl IndexError
      else if i < 0 then
        (if - i \<le> int (length xs) then Inr (xs ! nat (int (length xs) + i)) else Inl IndexError)
      else if nat i < length xs then Inr (xs ! nat i)
      else Inr (last xs))"

text \<open>The slice \<open>xs[:n]\<close> of the container.\<close>

definition nt_take :: "nat \<Rightarrow> 'a list \<Rightarrow> error + 'a list" where
  "nt_take n xs = sequence_e (map (\<lambda>i. nt_get xs (int i)) [0..<n])"

section \<open>Configuration\<close>

record nperlin =
  seed :: int
  frequency :: "int list"
  waveLength :: "real list"
  warp :: "(real \<Rightarrow> real) list"
  range' :: "real \<times> real"
  rangeMul :: real
  fwm :: int

text \<open>
  Modelled from the spec: \<open>Warp.improved()\<close> of \<open>selectionTools\<close> is not among the
  sources; the spec gives the default curve as the smootherstep
  \<open>6t\<^sup>5 - 15t\<^sup>4 + 10t\<^sup>3\<close>.
\<close>

definition improved :: "real \<Rightarrow> real" where
  "improved t = 6 * t ^ 5 - 15 * t ^ 4 + 10 * t ^ 3"

subsection \<open>Validators\<close>

text \<open>\<open>all(f > 1 and isinstance(f, int) for f in frequency)\<close>, evaluated left to right.\<close>

primrec all_frequency :: "pyval list \<Rightarrow> error + bool" where
  "all_frequency [] = Inr True"
| "all_frequency (f # fs) =
     (case py_gt f 1 of
        Inl e \<Rightarrow> Inl e
      | Inr b \<Rightarrow> if b \<and> isinstance_int f then all_frequency fs else Inr False)"

definition getFrequency :: "pyval \<Rightarrow> error + int list" where
  "getFrequency frequency0 =
     (let frequency1 = (if isinstance_int frequency0 then VTuple [frequency0] else frequency0)
      in case frequency1 of
           VTuple fs \<Rightarrow>
             ebind (all_frequency fs)
               (\<lambda>ok. if ok then Inr (map int_of fs) else Inl AssertionError)
         | v \<Rightarrow> Inl AssertionError)"

text \<open>\<open>all(w > 0 and isinstance(w, (int, float)) for w in waveLength)\<close>.\<close>

primrec all_waveLength :: "pyval list \<Rightarrow> error + bool" where
  "all_waveLength [] = Inr True"
| "all_waveLength (w # ws) =
     (case py_gt w 0 of
        Inl e \<Rightarrow> Inl e
      | Inr b \<Rightarrow> if b \<and> isinstance_int_float w then all_waveLength ws else Inr False)"

definition getWaveLength :: "pyval \<Rightarrow> error + real list" where
  "getWaveLength waveLength0 =
     (let waveLength1 =
            (if isinstance_int_float waveLength0 then VTuple [waveLength0] else waveLength0)
      in case waveLength1 of
           VTuple ws \<Rightarrow>
             ebind (all_waveLength ws)
               (\<lambda>ok. if ok then Inr (map num_of ws) else Inl AssertionError)
         | v \<Rightarrow> Inl AssertionError)"

definition getWarp :: "pyval \<Rightarrow> error + (real \<Rightarrow> real) list" where
  "getWarp warp0 =
     (let warp1 = (if isinstance_Warp warp0 then VTuple [warp0] else warp0)
      in case warp1 of
           VTuple ws \<Rightarrow>
             (if list_all isinstance_Warp ws then Inr (map warp_of ws) else Inl AssertionError)
         | v \<Rightarrow> Inl AssertionError)"

text \<open>
  \<open>__getRange\<close> returns the pair \<open>(_range, _rangeMul)\<close>.  It asks for the length and
  for the class of the two items only.
\<close>

definition getRange :: "pyval \<Rightarrow> error + ((real \<times> real) \<times> real)" where
  "getRange r =
     ebind (py_len r) (\<lambda>n.
       if n = 2 \<and> isinstance_int_float (py_item r 0) \<and> isinstance_int_float (py_item r 1)
       then Inr ((num_of (py_item r 0), num_of (py_item r 1)),
                 num_of (py_item r 1) - num_of (py_item r 0))
       else Inl AssertionError)"

subsection \<open>Constructor and setters\<close>

text \<open>
  \<open>NPrng(seed)\<close> is not among the sources; the state keeps the seed in effect (for an
  absent seed, the one the provider picked).  The fields are set in the order of
  \<open>__init__\<close>, so the first failing validator decides the exception.
\<close>

definition init :: "int \<Rightarrow> pyval \<Rightarrow> pyval \<Rightarrow> pyval \<Rightarrow> pyval \<Rightarrow> int \<Rightarrow> error + nperlin" where
  "init seed0 frequency0 waveLength0 warp0 range0 fwm0 =
     (let frequency1 = (if frequency0 = VNone then VInt 8 else frequency0);
          waveLength1 = (if waveLength0 = VNone then VInt 128 else waveLength0);
          warp1 = (if warp0 = VNone then VWarp improved else warp0);
          range1 = (if range0 = VNone then VTuple [VInt 0, VInt 1] else range0)
      in ebind (getFrequency frequency1) (\<lambda>f.
         ebind (getWaveLength waveLength1) (\<lambda>w.
         ebind (getWarp warp1) (\<lambda>wp.
         ebind (getRange range1) (\<lambda>(r, rm).
           Inr \<lparr>seed = seed0, frequency = f, waveLength = w, warp = wp,
                range' = r, rangeMul = rm, fwm = fwm0\<rparr>)))))"

definition setSeed :: "nperlin \<Rightarrow> int \<Rightarrow> nperlin" where
  "setSeed s seed0 = s\<lparr>seed := seed0\<rparr>"

definition setFrequency :: "nperlin \<Rightarrow> pyval \<Rightarrow> error + nperlin" where
  "setFrequency s frequency0 = ebind (getFrequency frequency0) (\<lambda>f. Inr (s\<lparr>frequency := f\<rparr>))"

definition setWaveLength :: "nperlin \<Rightarrow> pyval \<Rightarrow> error + nperlin" where
  "setWaveLength s waveLength0 =
     ebind (getWaveLength waveLength0) (\<lambda>w. Inr (s\<lparr>waveLength := w\<rparr>))"

definition setWarp :: "nperlin \<Rightarrow> pyval \<Rightarrow> error + nperlin" where
  "setWarp s warp0 = ebind (getWarp warp0) (\<lambda>w. Inr (s\<lparr>warp := w\<rparr>))"

definition setRange :: "nperlin \<Rightarrow> pyval \<Rightarrow> error + nperlin" where
  "setRange s range0 =
     ebind (getRange range0) (\<lambda>(r, rm). Inr (s\<lparr>range' := r, rangeMul := rm\<rparr>))"

subsection \<open>Derived quantities\<close>

definition mFrequency :: "nperlin \<Rightarrow> int list" where
  "mFrequency s = map (\<lambda>f. f * fwm s) (frequency s)"

definition mWaveLength :: "nperlin \<Rightarrow> real list" where
  "mWaveLength s = map (\<lambda>w. w * real_of_int (fwm s)) (waveLength s)"

text \<open>
  \<open>amp\<close> is \<open>NTuple(w / f for w, f in zip(mWaveLength, mFrequency))\<close>: the pairs of the
  shorter length, and Python's \<open>/\<close> raises on a zero divisor.
\<close>

definition amp :: "nperlin \<Rightarrow> error + real list" where
  "amp s =
     sequence_e (map (\<lambda>(w, f). if f = 0 then Inl ZeroDivisionError else Inr (w / real_of_int f))
                     (zip (mWaveLength s) (mFrequency s)))"

section \<open>Coordinate formatting\<close>

text \<open>One coordinate input per axis: a bare number or a flat sequence of numbers.\<close>

datatype coord = Scalar real | Seq "real list"

fun iterable :: "coord \<Rightarrow> bool" where
  "iterable (Scalar x) = False"
| "iterable (Seq xs) = True"

text \<open>
  \<open>x if iterable(x) else (x,)\<close>, the key handed to \<open>maxLen\<close>, and the conversion
  \<open>coords[d] = [coords[d]]\<close> of the loop body.
\<close>

fun as_list :: "coord \<Rightarrow> real list" where
  "as_list (Scalar x) = [x]"
| "as_list (Seq xs) = xs"

text \<open>\<open>np.ravel(coo)\<close> on a number or a flat sequence.\<close>

definition ravel :: "coord \<Rightarrow> coord" where
  "ravel c = Seq (as_list c)"

text \<open>
  Modelled from the spec: \<open>maxLen\<close> of \<open>tools\<close> is not among the sources; the spec
  gives its result as the maximum element count across the axes, a bare scalar counting
  as length 1.
\<close>

definition maxLen :: "coord list \<Rightarrow> nat" where
  "maxLen coords = foldr (\<lambda>c m. max (length (as_list c)) m) coords 0"

text \<open>\<open>np.repeat(xs, k)\<close>: every element \<open>k\<close> times, in order.\<close>

definition np_repeat :: "'a list \<Rightarrow> nat \<Rightarrow> 'a list" where
  "np_repeat xs k = concat (map (replicate k) xs)"

text \<open>
  The slice assignment \<open>row[lo:hi] = vs\<close> of numpy: the lengths agree, or \<open>vs\<close> has one
  element that is broadcast, or ValueError.
\<close>

definition set_slice :: "real list \<Rightarrow> nat \<Rightarrow> nat \<Rightarrow> real list \<Rightarrow> error + real list" where
  "set_slice row lo hi vs =
     (if length vs = hi - lo then Inr (take lo row @ vs @ drop hi row)
      else if length vs = 1 then Inr (take lo row @ replicate (hi - lo) (hd vs) @ drop hi row)
      else Inl ValueError)"

text \<open>
  The body of the loop of \<open>formatCoords\<close> for one axis, on that axis' row of the
  pre-allocated zeros: the two slice assignments, \<open>coords[d][-1]\<close> raising IndexError
  on an empty sequence.  The array has \<open>dtype=np.float32\<close>, so an assignment stores the
  float32 rounding \<open>f32 x\<close> of every value \<open>x\<close> it is given.
\<close>

definition format_axis ::
  "(real \<Rightarrow> real) \<Rightarrow> nat \<Rightarrow> coord \<Rightarrow> real list \<Rightarrow> error + real list" where
  "format_axis f32 maxLength c row =
     (let cd = as_list c;
          stretch = maxLength div max 1 (length cd);
          left = maxLength mod max 1 (length cd)
      in ebind (set_slice row 0 (maxLength - left) (map f32 (np_repeat cd stretch))) (\<lambda>row1.
           if cd = [] then Inl IndexError
           else set_slice row1 (maxLength - left) maxLength
                  (map f32 (np_repeat [last cd] left))))"

definition formatCoords :: "(real \<Rightarrow> real) \<Rightarrow> coord list \<Rightarrow> error + real list list" where
  "formatCoords f32 coords =
     (let maxLength = maxLen coords;
          zeros = replicate (length coords) (replicate maxLength (0::real))
      in ebind (sequence_e (map (\<lambda>d. format_axis f32 maxLength (coords ! d) (zeros ! d))
                                [0..<length coords]))
           (\<lambda>m. Inr (map (map abs) m)))"

section \<open>Bounds resolution\<close>

text \<open>
  Modelled from the spec: \<open>findCorners\<close> of \<open>tools\<close> is not among the sources.  The
  spec gives the \<open>2\<^sup>D\<close> binary offset vectors in the order in which bit \<open>d\<close> of the
  vertex number is the offset of input axis \<open>d\<close>; the rows of the resolver are the axes
  in reverse, so the last component is the one that alternates fastest.
\<close>

fun findCorners :: "nat \<Rightarrow> int list list" where
  "findCorners 0 = [[]]"
| "findCorners (Suc n) = map ((#) 0) (findCorners n) @ map ((#) 1) (findCorners n)"

text \<open>
  \<open>np.floor(x).astype(np.uint16)\<close>: the integral value, kept modulo \<open>2\<^sup>1\<^sup>6\<close>.
\<close>

definition astype_uint16 :: "real \<Rightarrow> 16 word" where
  "astype_uint16 x = word_of_int \<lfloor>x\<rfloor>"

definition findBounds ::
  "nperlin \<Rightarrow> real list list \<Rightarrow> error + (int list list list \<times> real list list)" where
  "findBounds s fCoords =
     ebind (amp s) (\<lambda>a.
     ebind (nt_take (length fCoords) a) (\<lambda>amps.
       let bCoords0 = map2 (\<lambda>row a. map (\<lambda>x. x / a) row) (rev fCoords) amps;
           lowerIndex = map (map (\<lambda>u. astype_uint16 (of_int \<lfloor>u\<rfloor>))) bCoords0;
           bCoords1 = map2 (map2 (\<lambda>u l. u - real (unat l))) bCoords0 lowerIndex;
           bIndex0 = map (\<lambda>i. map (\<lambda>c. map (\<lambda>l. int (unat l) + c ! i) (lowerIndex ! i))
                                   (findCorners (length bCoords1)))
                         [0..<length lowerIndex]
       in ebind (nt_take (length bIndex0) (mFrequency s)) (\<lambda>fs.
            Inr (map2 (\<lambda>plane f. map (map (\<lambda>x. x mod f)) plane) bIndex0 fs,
                 rev bCoords1))))"

section \<open>The random grid and its window\<close>

text \<open>
  \<open>NPrng\<close> of \<open>tools\<close> is not among the sources: the provider is a parameter.
  \<open>P sd shape off\<close> is the array \<open>NPrng(sd).shaped(shape, off)\<close>, read at an index
  tuple; \<open>None\<close> is an index the array does not have (IndexError).
\<close>

type_synonym fabric = "int list \<Rightarrow> real option"

type_synonym prng = "int \<Rightarrow> int list \<Rightarrow> int list \<Rightarrow> fabric"

definition fabric :: "prng \<Rightarrow> nperlin \<Rightarrow> int list \<Rightarrow> int list \<Rightarrow> fabric" where
  "fabric P s shape off = P (seed s) shape off"

text \<open>\<open>bIndex.min((1, 2))\<close> and \<open>bIndex.max((1, 2))\<close>: per axis, over vertices and samples.\<close>

definition bFab :: "int list list list \<Rightarrow> int list \<times> int list" where
  "bFab bIndex =
     (map (\<lambda>plane. Min (set (concat plane))) bIndex,
      map (\<lambda>plane. Max (set (concat plane))) bIndex)"

text \<open>The arguments \<open>(shape, off)\<close> that \<open>findFab\<close> hands to the provider.\<close>

definition fabRequest :: "int list list list \<Rightarrow> int list \<times> int list" where
  "fabRequest bIndex =
     (map2 (\<lambda>mx mn. (mx - mn) + 1) (snd (bFab bIndex)) (fst (bFab bIndex)), fst (bFab bIndex))"

text \<open>numpy raises ValueError for the minimum of an array without elements.\<close>

definition findFab :: "prng \<Rightarrow> nperlin \<Rightarrow> int list list list \<Rightarrow> error + fabric" where
  "findFab P s bIndex =
     (if \<exists>plane \<in> set bIndex. concat plane = [] then Inl ValueError
      else Inr (P (seed s) (fst (fabRequest bIndex)) (snd (fabRequest bIndex))))"

text \<open>The extent of the second dimension of a rectangular array.\<close>

definition dim1 :: "'a list list \<Rightarrow> nat" where
  "dim1 m = (case m of [] \<Rightarrow> 0 | r # rs \<Rightarrow> length r)"

text \<open>
  \<open>fab[tuple(bIndex)]\<close>: entry \<open>(v, n)\<close> reads \<open>fab\<close> at the tuple of the entries
  \<open>(v, n)\<close> of the planes of \<open>bIndex\<close>.
\<close>

definition take_fab :: "fabric \<Rightarrow> int list list list \<Rightarrow> error + real list list" where
  "take_fab fab bIndex =
     (case those (map (\<lambda>v. those (map (\<lambda>n. fab (map (\<lambda>plane. plane ! v ! n) bIndex))
                                      [0..<(case bIndex of [] \<Rightarrow> 0 | p # ps \<Rightarrow> dim1 p)]))
                      [0..<dim1 bIndex]) of
        None \<Rightarrow> Inl IndexError
      | Some bSpace \<Rightarrow> Inr bSpace)"

section \<open>Interpolation and range\<close>

text \<open>The transpose \<open>m.T\<close> of a rectangular array.\<close>

definition T :: "'a list list \<Rightarrow> 'a list list" where
  "T m = map (\<lambda>n. map (\<lambda>row. row ! n) m) [0..<dim1 m]"

text \<open>\<open>xs.reshape(-1, 2)\<close> of a flat array of even size.\<close>

fun reshape2 :: "real list \<Rightarrow> (real \<times> real) list" where
  "reshape2 (p0 # p1 # ps) = (p0, p1) # reshape2 ps"
| "reshape2 ps = []"

text \<open>
  \<open>__interpolation(pairs, coords, d)\<close>, \<open>pairs\<close> given flat: the warp of position \<open>d\<close>
  of the per-axis tuple, applied to every coordinate.
\<close>

definition interpolation :: "nperlin \<Rightarrow> real list \<Rightarrow> real list \<Rightarrow> int \<Rightarrow> error + real list" where
  "interpolation s pairs coords d =
     ebind (nt_get (warp s) d) (\<lambda>w.
       Inr (map2 (\<lambda>t (p0, p1). w t * (p1 - p0) + p0) coords (reshape2 pairs)))"

text \<open>The loop of \<open>bNoise\<close> over the axes \<open>ds\<close>, the array of pairs kept flat.\<close>

fun collapse ::
  "nperlin \<Rightarrow> real list list \<Rightarrow> nat \<Rightarrow> nat list \<Rightarrow> real list \<Rightarrow> error + real list" where
  "collapse s bCoords dims [] pairs = Inr pairs"
| "collapse s bCoords dims (d # ds) pairs =
     ebind (interpolation s pairs
              (np_repeat (map (\<lambda>row. row ! d) bCoords) (2 ^ (dims - 1 - d))) (int d))
       (\<lambda>pairs1. collapse s bCoords dims ds pairs1)"

definition bNoise :: "nperlin \<Rightarrow> real list list \<Rightarrow> real list list \<Rightarrow> error + real list" where
  "bNoise s bSpace bCoords =
     (let dims = dim1 bCoords
      in ebind (collapse s bCoords dims [0..<dims - 1] (concat bSpace)) (\<lambda>pairs.
           interpolation s pairs (map last bCoords) (- 1)))"

definition applyRange :: "nperlin \<Rightarrow> real list \<Rightarrow> real list" where
  "applyRange s noise = map (\<lambda>x. x * rangeMul s + fst (range' s)) noise"

section \<open>Sampling\<close>

text \<open>
  \<open>__call__\<close>, passing the engine through: the result is the engine after the call and
  the array of samples, or the exception.  \<open>f32\<close> is the float32 store of
  \<open>formatCoords\<close>, \<open>P\<close> the provider.
\<close>

definition call ::
  "(real \<Rightarrow> real) \<Rightarrow> prng \<Rightarrow> nperlin \<Rightarrow> coord list \<Rightarrow> nperlin \<times> (error + real list)" where
  "call f32 P s coords0 =
     (let coords1 = (if length coords0 = 0 then [Scalar 0] else coords0)
      in (s,
          ebind (formatCoords f32 (map ravel coords1)) (\<lambda>fCoords.
          ebind (findBounds s fCoords) (\<lambda>(bIndex, bCoords).
          ebind (findFab P s bIndex) (\<lambda>fab.
          ebind (take_fab fab bIndex) (\<lambda>bSpace.
          ebind (bNoise s (T bSpace) (T bCoords)) (\<lambda>noise.
            Inr (applyRange s noise))))))))"

section \<open>Well-formed engines and example data\<close>

text \<open>
  An engine whose per-axis tuples passed the validators with at least one entry each,
  whose multiplier \<open>fwm\<close> is at least 1 (the spec's data model; the constructor stores
  it unchecked) and whose range multiplier is the one \<open>__getRange\<close> computes.
\<close>

definition valid :: "nperlin \<Rightarrow> bool" where
  "valid s \<longleftrightarrow>
     frequency s \<noteq> [] \<and> list_all (\<lambda>f. 1 < f) (frequency s) \<and>
     waveLength s \<noteq> [] \<and> list_all (\<lambda>w. 0 < w) (waveLength s) \<and>
     warp s \<noteq> [] \<and> 1 \<le> fwm s \<and>
     rangeMul s = snd (range' s) - fst (range' s)"

text \<open>The entry a non-empty per-axis tuple answers at position \<open>i\<close>.\<close>

definition nt_at :: "'a list \<Rightarrow> nat \<Rightarrow> 'a" where
  "nt_at xs i = (if i < length xs then xs ! i else last xs)"


text \<open>A provider of that kind over a lattice \<open>g\<close>, for the examples.\<close>

definition window :: "(int \<Rightarrow> int list \<Rightarrow> real) \<Rightarrow> prng" where
  "window g sd shape off idx =
     (if length idx = length shape \<and> length off = length shape \<and>
         list_all (\<lambda>(k, (o1, n)). o1 \<le> k \<and> k < o1 + n) (zip idx (zip off shape))
      then Some (g sd idx) else None)"

text \<open>A lattice with the four values \<open>0, 1/4, 1/2, 3/4\<close>, by the index sum.\<close>

definition grid4 :: "int \<Rightarrow> int list \<Rightarrow> real" where
  "grid4 sd idx = real_of_int (sum_list idx mod 4) / 4"

text \<open>
  The float32 store for the examples: rounding to the nearest number with a significand
  of 24 bits, ties to the even significand, as IEEE 754 has it for binary32.  \<open>binade x\<close>
  is the exponent \<open>e\<close> with \<open>2\<^sup>e \<le> x < 2\<^sup>e\<^sup>+\<^sup>1\<close>, kept within the exponents \<open>-126\<close> to
  \<open>127\<close> of the format.  (Beyond its largest number the format has an infinity, which the
  reals have not; the examples stay far below.)
\<close>

primrec exp_up :: "nat \<Rightarrow> int \<Rightarrow> real \<Rightarrow> real \<Rightarrow> int" where
  "exp_up 0 e p x = e"
| "exp_up (Suc n) e p x = (if 2 * p \<le> x then exp_up n (e + 1) (2 * p) x else e)"

primrec exp_down :: "nat \<Rightarrow> int \<Rightarrow> real \<Rightarrow> real \<Rightarrow> int" where
  "exp_down 0 e p x = e"
| "exp_down (Suc n) e p x = (if x < p then exp_down n (e - 1) (p / 2) x else e)"

definition binade :: "real \<Rightarrow> int" where
  "binade x = (if 1 \<le> x then exp_up 127 0 1 x else exp_down 126 0 1 x)"

definition rint :: "real \<Rightarrow> int" where
  "rint y = (let n = \<lfloor>y\<rfloor>; r = y - of_int n
             in if r < 1 / 2 then n else if 1 / 2 < r then n + 1
                else if even n then n else n + 1)"

definition float32 :: "real \<Rightarrow> real" where
  "float32 x = (let q = 2 powi (binade \<bar>x\<bar> - 23) in sgn x * of_int (rint (\<bar>x\<bar> / q)) * q)"

text \<open>The engine \<open>NPerlin(0, f, w)\<close> for tuples \<open>f\<close> and \<open>w\<close>: default warp and range.\<close>

definition engine :: "int list \<Rightarrow> real list \<Rightarrow> nperlin" where
  "engine f w =
     \<lparr>seed = 0, frequency = f, waveLength = w, warp = [improved],
      range' = (0, 1), rangeMul = 1, fwm = 1\<rparr>"

section \<open>Basic facts\<close>

lemma ebind_Inl [simp]: "ebind (Inl e) f = Inl e"
  by (simp add: ebind_def)

lemma ebind_Inr [simp]: "ebind (Inr x) f = f x"
  by (simp add: ebind_def)

lemma ebind_eq_Inr: "ebind m f = Inr y \<longleftrightarrow> (\<exists>x. m = Inr x \<and> f x = Inr y)"
  by (cases m) simp_all

section \<open>The range multiplier\<close>

lemma getRange_mul: "getRange r = Inr (p, m) \<Longrightarrow> m = snd p - fst p"
  by (auto simp: getRange_def ebind_eq_Inr split: if_splits)

text \<open>
  C9.  After construction and after every \<open>setRange\<close> the stored multiplier is
  \<open>range[1] - range[0]\<close>, so that \<open>applyRange\<close> maps a raw value \<open>x\<close> to
  \<open>range[0] + x * (range[1] - range[0])\<close>; \<open>setSeed\<close>, \<open>setFrequency\<close>,
  \<open>setWaveLength\<close>, \<open>setWarp\<close> and a sampling call leave the stored range and the
  multiplier as they were.
\<close>

theorem range_multiplier_invariant:
  "(init sd f w wp r m = Inr s1 \<longrightarrow> rangeMul s1 = snd (range' s1) - fst (range' s1)) \<and>
   (setRange s r2 = Inr s2 \<longrightarrow> rangeMul s2 = snd (range' s2) - fst (range' s2)) \<and>
   (rangeMul s = snd (range' s) - fst (range' s) \<longrightarrow>
      applyRange s raw = map (\<lambda>x. fst (range' s) + x * (snd (range' s) - fst (range' s))) raw) \<and>
   range' (setSeed s v) = range' s \<and> rangeMul (setSeed s v) = rangeMul s \<and>
   (setFrequency s f3 = Inr s3 \<longrightarrow> range' s3 = range' s \<and> rangeMul s3 = rangeMul s) \<and>
   (setWaveLength s w4 = Inr s4 \<longrightarrow> range' s4 = range' s \<and> rangeMul s4 = rangeMul s) \<and>
   (setWarp s wp5 = Inr s5 \<longrightarrow> range' s5 = range' s \<and> rangeMul s5 = rangeMul s) \<and>
   range' (fst (call f32 P s cs)) = range' s \<and> rangeMul (fst (call f32 P s cs)) = rangeMul s"
proof -
  have a: "init sd f w wp r m = Inr s1 \<longrightarrow> rangeMul s1 = snd (range' s1) - fst (range' s1)"
    by (auto simp: init_def Let_def ebind_eq_Inr dest: getRange_mul)
  have b: "setRange s r2 = Inr s2 \<longrightarrow> rangeMul s2 = snd (range' s2) - fst (range' s2)"
    by (auto simp: setRange_def ebind_eq_Inr dest: getRange_mul)
  have c: "rangeMul s = snd (range' s) - fst (range' s) \<longrightarrow>
      applyRange s raw = map (\<lambda>x. fst (range' s) + x * (snd (range' s) - fst (range' s))) raw"
    by (simp add: applyRange_def add.commute)
  have d: "range' (setSeed s v) = range' s \<and> rangeMul (setSeed s v) = rangeMul s"
    by (simp add: setSeed_def)
  have e: "setFrequency s f3 = Inr s3 \<longrightarrow> range' s3 = range' s \<and> rangeMul s3 = rangeMul s"
    by (auto simp: setFrequency_def ebind_eq_Inr)
  have f: "setWaveLength s w4 = Inr s4 \<longrightarrow> range' s4 = range' s \<and> rangeMul s4 = rangeMul s"
    by (auto simp: setWaveLength_def ebind_eq_Inr)
  have g: "setWarp s wp5 = Inr s5 \<longrightarrow> range' s5 = range' s \<and> rangeMul s5 = rangeMul s"
    by (auto simp: setWarp_def ebind_eq_Inr)
  have h: "range' (fst (call f32 P s cs)) = range' s \<and>
      rangeMul (fst (call f32 P s cs)) = rangeMul s"
    by (simp add: call_def Let_def)
  from a b c d e f g h show ?thesis by blast
qed

theorem range_multiplier_invariant_witness:
  "init 0 VNone VNone VNone (VTuple [VInt 2, VFloat 5]) 1
     = Inr ((engine [8] [128])\<lparr>range' := (2, 5), rangeMul := 3\<rparr>) \<and>
   rangeMul ((engine [8] [128])\<lparr>range' := (2, 5), rangeMul := 3\<rparr>) = 5 - 2 \<and>
   setRange (engine [8] [128]) (VTuple [VInt (- 1), VInt 1])
     = Inr ((engine [8] [128])\<lparr>range' := (- 1, 1), rangeMul := 2\<rparr>) \<and>
   rangeMul ((engine [8] [128])\<lparr>range' := (- 1, 1), rangeMul := 2\<rparr>) = 1 - (- 1) \<and>
   rangeMul (engine [8] [128]) = snd (range' (engine [8] [128])) - fst (range' (engine [8] [128])) \<and>
   applyRange (engine [8] [128]) [1 / 4] = [0 + 1 / 4 * (1 - 0)] \<and>
   setFrequency (engine [8] [128]) (VInt 4) = Inr (engine [4] [128]) \<and>
   range' (engine [4] [128]) = range' (engine [8] [128]) \<and>
   rangeMul (engine [4] [128]) = rangeMul (engine [8] [128])"
  using range_multiplier_invariant
    [of 0 VNone VNone VNone "VTuple [VInt 2, VFloat 5]" 1
        "(engine [8] [128])\<lparr>range' := (2, 5), rangeMul := 3\<rparr>"
        "engine [8] [128]"
        "VTuple [VInt (- 1), VInt 1]"
        "(engine [8] [128])\<lparr>range' := (- 1, 1), rangeMul := 2\<rparr>"
        "[1 / 4]" 0 "VInt 4" "engine [4] [128]"]
  by (simp add: init_def getFrequency_def getWaveLength_def getWarp_def getRange_def
        setRange_def setFrequency_def engine_def)

section \<open>Coordinate formatting: the broadcast rule\<close>

lemma length_np_repeat [simp]: "length (np_repeat xs k) = length xs * k"
  by (induction xs) (simp_all add: np_repeat_def)

lemma np_repeat_Cons: "np_repeat (x # xs) k = replicate k x @ np_repeat xs k"
  by (simp add: np_repeat_def)

lemma nth_np_repeat: "j < length xs * k \<Longrightarrow> np_repeat xs k ! j = xs ! (j div k)"
proof (induction xs arbitrary: j)
  case Nil
  then show ?case by simp
next
  case (Cons x xs)
  show ?case
  proof (cases "j < k")
    case True
    then show ?thesis by (simp add: np_repeat_Cons nth_append)
  next
    case False
    then have k: "0 < k" "k \<le> j" using Cons.prems by (auto intro: Nat.gr0I)
    from Cons.prems k have "j - k < length xs * k" by simp
    then have "np_repeat xs k ! (j - k) = xs ! ((j - k) div k)" by (rule Cons.IH)
    moreover from k have "j div k = Suc ((j - k) div k)"
      using le_div_geq by blast
    ultimately show ?thesis using False by (simp add: np_repeat_Cons nth_append)
  qed
qed

lemma maxLen_ge: "c \<in> set coords \<Longrightarrow> length (as_list c) \<le> maxLen coords"
  by (induction coords) (auto simp: maxLen_def)

lemma sequence_e_map_Inr:
  "(\<And>x. x \<in> set xs \<Longrightarrow> f x = Inr (g x)) \<Longrightarrow> sequence_e (map f xs) = Inr (map g xs)"
  by (induction xs) simp_all

lemma format_axis_row:
  assumes "as_list c \<noteq> []" "length (as_list c) \<le> N"
  shows "format_axis f32 N c (replicate N 0) =
     Inr (map f32 (np_repeat (as_list c) (N div length (as_list c))
          @ replicate (N mod length (as_list c)) (last (as_list c))))"
proof -
  let ?xs = "as_list c"
  let ?L = "length ?xs"
  have L: "0 < ?L" using assms by simp
  then have m1: "max 1 ?L = ?L" by (simp add: max_def Suc_le_eq)
  have len1: "?L * (N div ?L) = N - N mod ?L"
    by (metis minus_mod_eq_mult_div mult.commute)
  have le: "N mod ?L \<le> N" by simp
  have rep1: "np_repeat [x] k = replicate k x" for x :: real and k
    by (simp add: np_repeat_def)
  show ?thesis
    unfolding format_axis_def Let_def m1
    using assms(1) le by (simp add: set_slice_def len1 rep1)
qed

lemma formatCoords_closed:
  assumes "\<forall>c\<in>set coords. as_list c \<noteq> []"
  shows "formatCoords f32 coords =
     Inr (map (\<lambda>c. map (\<lambda>x. \<bar>f32 x\<bar>)
            (np_repeat (as_list c) (maxLen coords div length (as_list c))
             @ replicate (maxLen coords mod length (as_list c)) (last (as_list c)))) coords)"
proof -
  let ?h = "\<lambda>c. np_repeat (as_list c) (maxLen coords div length (as_list c))
          @ replicate (maxLen coords mod length (as_list c)) (last (as_list c))"
  have "sequence_e (map (\<lambda>d. format_axis f32 (maxLen coords) (coords ! d)
            (replicate (length coords) (replicate (maxLen coords) (0::real)) ! d)) [0..<length coords])
      = Inr (map (\<lambda>d. map f32 (?h (coords ! d))) [0..<length coords])"
    by (rule sequence_e_map_Inr) (use assms in \<open>simp add: format_axis_row maxLen_ge\<close>)
  moreover have "map (map abs) (map (\<lambda>d. map f32 (?h (coords ! d))) [0..<length coords])
      = map (\<lambda>c. map (\<lambda>x. \<bar>f32 x\<bar>) (?h c)) coords"
    by (rule nth_equalityI) simp_all
  ultimately show ?thesis
    by (simp only: formatCoords_def Let_def ebind_Inr)
qed

lemma float32_examples:
  "float32 (1 / 10) = 13421773 / 134217728" "float32 16777217 = 16777216"
  "float32 (5 / 3) = 13981013 / 8388608"
  by code_simp+


lemma formatCoords_example1:
  "formatCoords float32 [Seq [1, 2, 3], Scalar 5] = Inr [[1, 2, 3], [5, 5, 5]]"
  by code_simp

lemma formatCoords_example2:
  "formatCoords float32 [Seq [1, 2], Seq [10, 20, 30]] = Inr [[1, 2, 2], [10, 20, 30]]"
  by code_simp

text \<open>
  C6, as the code has it.  When no axis is an empty sequence, \<open>formatCoords\<close> returns a
  matrix with one row per axis and \<open>N = maxLen coords\<close> columns, \<open>N\<close> being at least the
  length \<open>L\<close> of every axis.  Slot \<open>j\<close> of a row holds the absolute value of what the
  float32 store keeps of the axis' value number \<open>j div (N div L)\<close> for
  \<open>j < N - N mod L\<close>, and of the axis' last value in the remaining \<open>N mod L\<close> slots;
  this for every store \<open>f32\<close>.  The two examples of the claim, whose values float32
  keeps as they are, evaluate as it says.
\<close>

theorem formatCoords_broadcast:
  assumes "\<forall>c\<in>set coords. as_list c \<noteq> []"
  shows "\<exists>m. formatCoords f32 coords = Inr m \<and> length m = length coords \<and>
     (\<forall>d<length coords.
        length (m ! d) = maxLen coords \<and>
        length (as_list (coords ! d)) \<le> maxLen coords \<and>
        (\<forall>j<maxLen coords.
           m ! d ! j =
             \<bar>f32 (if j < maxLen coords - maxLen coords mod length (as_list (coords ! d))
                   then as_list (coords ! d) ! (j div (maxLen coords div length (as_list (coords ! d))))
                   else last (as_list (coords ! d)))\<bar>)) \<and>
     formatCoords float32 [Seq [1, 2, 3], Scalar 5] = Inr [[1, 2, 3], [5, 5, 5]] \<and>
     formatCoords float32 [Seq [1, 2], Seq [10, 20, 30]] = Inr [[1, 2, 2], [10, 20, 30]]"
proof -
  let ?N = "maxLen coords"
  let ?h = "\<lambda>c. np_repeat (as_list c) (?N div length (as_list c))
          @ replicate (?N mod length (as_list c)) (last (as_list c))"
  have len: "length (?h c) = ?N" if "c \<in> set coords" for c
  proof -
    have "length (as_list c) * (?N div length (as_list c)) + ?N mod length (as_list c) = ?N"
      by simp
    then show ?thesis by simp
  qed
  have nth: "?h c ! j = (if j < ?N - ?N mod length (as_list c)
              then as_list c ! (j div (?N div length (as_list c))) else last (as_list c))"
    if "c \<in> set coords" "j < ?N" for c j
  proof -
    have l1: "length (as_list c) * (?N div length (as_list c)) = ?N - ?N mod length (as_list c)"
      by (metis minus_mod_eq_mult_div mult.commute)
    show ?thesis
    proof (cases "j < ?N - ?N mod length (as_list c)")
      case True
      then show ?thesis by (simp add: nth_append l1 nth_np_repeat)
    next
      case False
      with that(2) show ?thesis by (simp add: nth_append l1)
    qed
  qed
  let ?m = "map (\<lambda>c. map (\<lambda>x. \<bar>f32 x\<bar>) (?h c)) coords"
  have A: "formatCoords f32 coords = Inr ?m"
    by (rule formatCoords_closed [OF assms])
  have B: "length (?m ! d) = ?N \<and> length (as_list (coords ! d)) \<le> ?N \<and>
        (\<forall>j<?N. ?m ! d ! j =
             \<bar>f32 (if j < ?N - ?N mod length (as_list (coords ! d))
                   then as_list (coords ! d) ! (j div (?N div length (as_list (coords ! d))))
                   else last (as_list (coords ! d)))\<bar>)" if d: "d < length coords" for d
  proof -
    from d have mem: "coords ! d \<in> set coords" by simp
    from d have md: "?m ! d = map (\<lambda>x. \<bar>f32 x\<bar>) (?h (coords ! d))" by simp
    have C: "?m ! d ! j =
             \<bar>f32 (if j < ?N - ?N mod length (as_list (coords ! d))
                   then as_list (coords ! d) ! (j div (?N div length (as_list (coords ! d))))
                   else last (as_list (coords ! d)))\<bar>" if j: "j < ?N" for j
    proof -
      have "?m ! d ! j = \<bar>f32 (?h (coords ! d) ! j)\<bar>"
        unfolding md using j len [OF mem] by (simp only: nth_map)
      then show ?thesis
        by (simp only: nth [OF mem j])
    qed
    have D: "length (?m ! d) = ?N"
      unfolding md using len [OF mem] by (simp only: length_map)
    from C D maxLen_ge [OF mem] show ?thesis by blast
  qed
  from A B have "\<exists>m. formatCoords f32 coords = Inr m \<and> length m = length coords \<and>
     (\<forall>d<length coords.
        length (m ! d) = ?N \<and>
        length (as_list (coords ! d)) \<le> ?N \<and>
        (\<forall>j<?N.
           m ! d ! j =
             \<bar>f32 (if j < ?N - ?N mod length (as_list (coords ! d))
                   then as_list (coords ! d) ! (j div (?N div length (as_list (coords ! d))))
                   else last (as_list (coords ! d)))\<bar>))"
    by (intro exI [of _ ?m]) simp
  then show ?thesis
    using formatCoords_example1 formatCoords_example2 by blast
qed

theorem formatCoords_broadcast_witness:
  "as_list (Seq [1, 2]) \<noteq> [] \<and> as_list (Seq [10, 20, 30]) \<noteq> [] \<and>
   formatCoords float32 [Seq [1, 2], Seq [10, 20, 30]] = Inr [[1, 2, 2], [10, 20, 30]] \<and>
   maxLen [Seq [1, 2], Seq [10, 20, 30]] = 3"
  using formatCoords_broadcast [of "[Seq [1, 2], Seq [10, 20, 30]]" float32]
  by (simp add: formatCoords_example2 maxLen_def)

text \<open>
  The claim as stated fails on a negative value and on a value that float32 does not
  have: the row is not the repetition of the axis' values but of the absolute values of
  their float32 roundings.  (An empty sequence among the axes makes \<open>formatCoords\<close>
  raise.)
\<close>

theorem formatCoords_values_counterexample:
  "formatCoords float32 [Seq [- 1, 2], Seq [10, 20, 30]] = Inr [[1, 2, 2], [10, 20, 30]] \<and>
   [1, 2, 2] \<noteq> np_repeat [- 1, 2] (3 div 2) @ replicate (3 mod 2) (last [- 1, 2 :: real]) \<and>
   formatCoords float32 [Scalar (1 / 10)] = Inr [[13421773 / 134217728]] \<and>
   formatCoords float32 [Scalar 16777217] = Inr [[16777216]]"
  by code_simp

section \<open>Bounds resolution: what the resolver computes\<close>

lemma nt_get_nat: "xs \<noteq> [] \<Longrightarrow> nt_get xs (int i) = Inr (nt_at xs i)"
  by (simp add: nt_get_def nt_at_def)

lemma nt_take_Inr: "xs \<noteq> [] \<Longrightarrow> nt_take n xs = Inr (map (nt_at xs) [0..<n])"
  unfolding nt_take_def by (rule sequence_e_map_Inr) (simp add: nt_get_nat)

lemma nt_take_Nil: "0 < n \<Longrightarrow> nt_take n [] = Inl IndexError"
  by (simp add: nt_take_def nt_get_def upt_conv_Cons)

lemma nt_take_eq_Inr:
  "nt_take n xs = Inr ys \<Longrightarrow> 0 < n \<Longrightarrow> xs \<noteq> [] \<and> ys = map (nt_at xs) [0..<n]"
  by (cases "xs = []") (simp_all add: nt_take_Nil nt_take_Inr)

lemma astype_uint16_of_int: "astype_uint16 (of_int k) = (word_of_int k :: 16 word)"
  by (simp only: astype_uint16_def floor_of_int)

lemma two_power_16: "(2::int) ^ LENGTH(16) = 65536"
  by simp

lemma uint_word16_of_int: "uint (word_of_int k :: 16 word) = k mod 65536"
  using uint_word_of_int [where 'a = 16, of k] unfolding two_power_16 .

lemma uint16_floor: "uint (astype_uint16 (of_int k)) = k mod 65536"
  unfolding astype_uint16_of_int by (rule uint_word16_of_int)

lemma uint16_floor_real:
  "(unsigned (astype_uint16 (of_int k)) :: real) = of_int (k mod 65536)"
proof -
  have "(unsigned (astype_uint16 (of_int k)) :: real) = of_int (uint (astype_uint16 (of_int k)))"
    by (rule of_int_uint [symmetric])
  then show ?thesis
    by (simp only: uint16_floor)
qed

lemma map2_map_same: "map2 f (map g xs) (map h xs) = map (\<lambda>x. f (g x) (h x)) xs"
  by (induction xs) simp_all

lemma findBounds_closed:
  assumes a: "amp s = Inr a" and ne: "a \<noteq> []" "mFrequency s \<noteq> []"
  shows "findBounds s fC =
     Inr (map (\<lambda>i. map (\<lambda>c. map (\<lambda>x. (\<lfloor>x / nt_at a i\<rfloor> mod 65536 + c ! i)
                                       mod nt_at (mFrequency s) i) (rev fC ! i))
                        (findCorners (length fC))) [0..<length fC],
          rev (map (\<lambda>i. map (\<lambda>x. x / nt_at a i - of_int (\<lfloor>x / nt_at a i\<rfloor> mod 65536))
                            (rev fC ! i)) [0..<length fC]))"
proof -
  let ?D = "length fC"
  let ?b0 = "map2 (\<lambda>row a. map (\<lambda>x. x / a) row) (rev fC) (map (nt_at a) [0..<?D])"
  let ?li = "map (map (\<lambda>u. astype_uint16 (of_int \<lfloor>u\<rfloor>))) ?b0"
  have b0: "?b0 = map (\<lambda>i. map (\<lambda>x. x / nt_at a i) (rev fC ! i)) [0..<?D]"
    by (rule nth_equalityI) simp_all
  have b1: "map2 (map2 (\<lambda>u l. u - real (unat l))) ?b0 ?li
      = map (\<lambda>i. map (\<lambda>x. x / nt_at a i - of_int (\<lfloor>x / nt_at a i\<rfloor> mod 65536)) (rev fC ! i))
          [0..<?D]"
    unfolding b0 by (rule nth_equalityI) (simp_all add: map2_map_same uint16_floor_real comp_def)
  have bi: "map2 (\<lambda>plane f. map (map (\<lambda>x. x mod f)) plane)
        (map (\<lambda>i. map (\<lambda>c. map (\<lambda>l. int (unat l) + c ! i) (?li ! i)) (findCorners ?D)) [0..<?D])
        (map (nt_at (mFrequency s)) [0..<?D])
      = map (\<lambda>i. map (\<lambda>c. map (\<lambda>x. (\<lfloor>x / nt_at a i\<rfloor> mod 65536 + c ! i)
                                       mod nt_at (mFrequency s) i) (rev fC ! i))
                        (findCorners ?D)) [0..<?D]"
    unfolding b0 by (rule nth_equalityI) (simp_all add: uint16_floor comp_def)
  have "findBounds s fC =
     Inr (map2 (\<lambda>plane f. map (map (\<lambda>x. x mod f)) plane)
        (map (\<lambda>i. map (\<lambda>c. map (\<lambda>l. int (unat l) + c ! i) (?li ! i)) (findCorners ?D)) [0..<?D])
        (map (nt_at (mFrequency s)) [0..<?D]),
        rev (map2 (map2 (\<lambda>u l. u - real (unat l))) ?b0 ?li))"
    by (simp add: findBounds_def a nt_take_Inr ne Let_def)
  then show ?thesis
    by (simp only: bi b1)
qed

lemma sequence_e_length: "sequence_e ms = Inr xs \<Longrightarrow> length xs = length ms"
  by (induction ms arbitrary: xs) (auto simp: ebind_eq_Inr)

lemma amp_length: "amp s = Inr a \<Longrightarrow> length a = min (length (mWaveLength s)) (length (mFrequency s))"
  by (auto simp: amp_def dest: sequence_e_length)

lemma length_findCorners [simp]: "length (findCorners n) = 2 ^ n"
  by (induction n) simp_all

lemma findBounds_Inr_nonempty:
  assumes "findBounds s fC = Inr r" "amp s = Inr a" "fC \<noteq> []"
  shows "a \<noteq> [] \<and> mFrequency s \<noteq> []"
proof -
  have "a \<noteq> []"
  proof
    assume "a = []"
    with assms(2,3) have "findBounds s fC = Inl IndexError"
      by (simp add: findBounds_def nt_take_Nil)
    with assms(1) show False by simp
  qed
  moreover from this amp_length [OF assms(2)] have "mFrequency s \<noteq> []"
    by auto
  ultimately show ?thesis ..
qed

lemma findBounds_large:
  "findBounds (engine [2] [2]) [[131073 / 2]] = Inr ([[[0], [1]]], [[131073 / 2]])"
  by code_simp

lemma amp_engine_2: "amp (engine [2] [2]) = Inr [1]"
  by code_simp

text \<open>
  C10.  For every entry of the formatted matrix the resolver's lower index is
  \<open>floor u mod 2\<^sup>1\<^sup>6\<close>, \<open>u\<close> the unitized coordinate; the corner offset is added and
  the sum is wrapped modulo the effective frequency afterwards, and the fractional offset
  is \<open>u\<close> minus the truncated index.  From \<open>u = 65536\<close> on the offset differs from
  \<open>u - floor u\<close> and is at least 1.
\<close>

theorem findBounds_uint16:
  assumes fb: "findBounds s fC = Inr (bIndex, bCoords)"
    and a: "amp s = Inr a"
    and i: "i < length fC" and n: "n < length (rev fC ! i)" and v: "v < 2 ^ length fC"
    and u: "u = rev fC ! i ! n / nt_at a i"
  shows "bIndex ! i ! v ! n =
           (\<lfloor>u\<rfloor> mod 65536 + findCorners (length fC) ! v ! i) mod nt_at (mFrequency s) i \<and>
         rev bCoords ! i ! n = u - of_int (\<lfloor>u\<rfloor> mod 65536) \<and>
         (65536 \<le> u \<longrightarrow> rev bCoords ! i ! n \<noteq> u - of_int \<lfloor>u\<rfloor> \<and> 1 \<le> rev bCoords ! i ! n)"
proof -
  from i have "fC \<noteq> []" by auto
  with fb a have ne: "a \<noteq> []" "mFrequency s \<noteq> []"
    using findBounds_Inr_nonempty by blast+
  note cl = findBounds_closed [OF a ne, of fC]
  from fb cl have bI: "bIndex = map (\<lambda>i. map (\<lambda>c. map (\<lambda>x. (\<lfloor>x / nt_at a i\<rfloor> mod 65536 + c ! i)
                                       mod nt_at (mFrequency s) i) (rev fC ! i))
                        (findCorners (length fC))) [0..<length fC]"
    and bC: "rev bCoords = map (\<lambda>i. map (\<lambda>x. x / nt_at a i - of_int (\<lfloor>x / nt_at a i\<rfloor> mod 65536))
                            (rev fC ! i)) [0..<length fC]"
    by auto
  have 1: "bIndex ! i ! v ! n =
           (\<lfloor>u\<rfloor> mod 65536 + findCorners (length fC) ! v ! i) mod nt_at (mFrequency s) i"
    unfolding bI u using i n v by simp
  have 2: "rev bCoords ! i ! n = u - of_int (\<lfloor>u\<rfloor> mod 65536)"
    unfolding bC u using i n by simp
  have 3: "rev bCoords ! i ! n \<noteq> u - of_int \<lfloor>u\<rfloor> \<and> 1 \<le> rev bCoords ! i ! n" if "65536 \<le> u"
  proof -
    from that have f: "65536 \<le> \<lfloor>u\<rfloor>" by (simp add: le_floor_iff)
    have m: "\<lfloor>u\<rfloor> mod 65536 < 65536" by simp
    have "real_of_int (\<lfloor>u\<rfloor> mod 65536) \<le> 65535"
      using m by linarith
    with that have "1 \<le> u - of_int (\<lfloor>u\<rfloor> mod 65536)" by linarith
    moreover from f m have "\<lfloor>u\<rfloor> mod 65536 \<noteq> \<lfloor>u\<rfloor>" by linarith
    ultimately show ?thesis unfolding 2 by simp
  qed
  from 1 2 3 show ?thesis by blast
qed


theorem findBounds_uint16_witness:
  "findBounds (engine [2] [2]) [[131073 / 2]] = Inr ([[[0], [1]]], [[131073 / 2]]) \<and>
   amp (engine [2] [2]) = Inr [1] \<and>
   \<lfloor>131073 / 2 :: real\<rfloor> mod 65536 = 0 \<and> (65536 :: real) \<le> 131073 / 2 \<and>
   (131073 / 2 :: real) \<noteq> 131073 / 2 - of_int \<lfloor>131073 / 2 :: real\<rfloor>"
  using findBounds_uint16 [of "engine [2] [2]" "[[131073 / 2]]" "[[[0], [1]]]" "[[131073 / 2]]"
      "[1]" 0 0 1 "131073 / 2"]
  by (simp add: findBounds_large amp_engine_2 nt_at_def)

text \<open>
  C5 at a coordinate the code can receive.  With frequency 2 and wave length 2 the
  spacing is 1; the coordinate 65536.5 has the floor 65536, the resolver's lower index
  is 0 and the fractional offset is 65536.5, outside \<open>[0, 1)\<close>.  With frequency (2, 4)
  and wave length (2, 8) the spacings are (1, 2); the point (3, 5) gets the offsets
  (1/2, 0): the coordinate 3 of axis 0 was divided by the spacing 2 of position 1, and
  the coordinate 5 of axis 1 by the spacing 1 of position 0.
\<close>

theorem findBounds_offset_outside_unit:
  "findBounds (engine [2] [2]) [[131073 / 2]] = Inr ([[[0], [1]]], [[131073 / 2]]) \<and>
   \<not> (131073 / 2 :: real) < 1 \<and>
   amp (engine [2, 4] [2, 8]) = Inr [1, 2] \<and>
   findBounds (engine [2, 4] [2, 8]) [[3], [5]]
     = Inr ([[[1], [1], [0], [0]], [[1], [2], [1], [2]]], [[1 / 2], [0]])"
  by code_simp

section \<open>The window request\<close>

lemma nt_at_mem: "xs \<noteq> [] \<Longrightarrow> nt_at xs i \<in> set xs"
  by (simp add: nt_at_def)

lemma valid_mFrequency: "valid s \<Longrightarrow> mFrequency s \<noteq> [] \<and> (\<forall>f\<in>set (mFrequency s). 1 < f)"
proof -
  assume v: "valid s"
  have "1 < f * fwm s" if "f \<in> set (frequency s)" for f
  proof -
    from v that have "1 < f" "1 \<le> fwm s" by (auto simp: valid_def list_all_iff)
    then have "1 * 1 < f * fwm s" by (intro mult_less_le_imp_less) simp_all
    then show ?thesis by simp
  qed
  with v show ?thesis by (auto simp: valid_def mFrequency_def)
qed

lemma valid_mWaveLength: "valid s \<Longrightarrow> mWaveLength s \<noteq> [] \<and> (\<forall>w\<in>set (mWaveLength s). 0 < w)"
  by (auto simp: valid_def mWaveLength_def list_all_iff)

lemma valid_amp:
  assumes "valid s"
  shows "\<exists>a. amp s = Inr a \<and> a \<noteq> [] \<and> (\<forall>x\<in>set a. 0 < x)"
proof -
  let ?z = "zip (mWaveLength s) (mFrequency s)"
  let ?a = "map (\<lambda>(w, f). w / real_of_int f) ?z"
  from assms have F: "mFrequency s \<noteq> []" "\<forall>f\<in>set (mFrequency s). 1 < f"
    and W: "mWaveLength s \<noteq> []" "\<forall>w\<in>set (mWaveLength s). 0 < w"
    using valid_mFrequency valid_mWaveLength by blast+
  have "amp s = Inr ?a"
    unfolding amp_def
    by (rule sequence_e_map_Inr) (use F in \<open>auto dest!: set_zip_rightD\<close>)
  moreover from F W have "?a \<noteq> []"
    by (cases "mWaveLength s"; cases "mFrequency s") simp_all
  moreover have "0 < x" if "x \<in> set ?a" for x
  proof -
    from that obtain w f where wf: "(w, f) \<in> set ?z" "x = w / real_of_int f" by auto
    from wf(1) have "w \<in> set (mWaveLength s)" "f \<in> set (mFrequency s)"
      by (rule set_zip_leftD, rule set_zip_rightD)
    with F W have "0 < w" "0 < real_of_int f" by force+
    with wf(2) show ?thesis by simp
  qed
  ultimately show ?thesis by blast
qed

lemma valid_engine_4_2: "valid (engine [4, 2] [4, 8])"
  by (simp add: valid_def engine_def)

lemma amp_engine_4_2: "amp (engine [4, 2] [4, 8]) = Inr [1, 4]"
  by code_simp

lemma findCorners_2: "findCorners 2 = [[0, 0], [0, 1], [1, 0], [1, 1]]"
  by code_simp

lemma findBounds_far:
  "findBounds (engine [4, 2] [4, 8]) [[3, 1, 7 / 2], [5, 100000, 2]]
     = Inr ([[[1, 0, 2], [1, 0, 2], [2, 1, 3], [2, 1, 3]],
             [[0, 0, 0], [1, 1, 1], [0, 0, 0], [1, 1, 1]]],
            [[3 / 4, 1 / 4, 7 / 8], [0, 65536, 0]])"
  using findBounds_closed [OF amp_engine_4_2, of "[[3, 1, 7 / 2], [5, 100000, 2]]"]
  by (simp add: findCorners_2 nt_at_def mFrequency_def engine_def upt_conv_Cons)

lemma fabRequest_far:
  "fabRequest [[[1, 0, 2], [1, 0, 2], [2, 1, 3], [2, 1, 3]],
               [[0, 0, 0], [1, 1, 1], [0, 0, 0], [1, 1, 1]]] = ([4, 2], [0, 0])"
  by (simp add: fabRequest_def bFab_def)

text \<open>
  C7.  For a well-formed engine and a formatted matrix with at least one sample,
  \<open>findFab\<close> asks the provider for the window whose shape is, per axis, the maximum
  minus the minimum corner index plus 1, and whose offset is the minimum, both over all
  vertices and samples; as the indices were wrapped before, that extent is at least 1 and
  at most the effective frequency of the axis, whatever the coordinates.
\<close>

theorem findFab_window:
  assumes v: "valid s"
    and fb: "findBounds s fC = Inr (bIndex, bCoords)"
    and rows: "\<forall>row\<in>set fC. row \<noteq> []"
    and i: "i < length fC"
  shows "findFab P s bIndex = Inr (P (seed s) (fst (fabRequest bIndex)) (snd (fabRequest bIndex))) \<and>
         length (fst (fabRequest bIndex)) = length fC \<and>
         length (snd (fabRequest bIndex)) = length fC \<and>
         fst (fabRequest bIndex) ! i
           = (Max (set (concat (bIndex ! i))) - Min (set (concat (bIndex ! i)))) + 1 \<and>
         snd (fabRequest bIndex) ! i = Min (set (concat (bIndex ! i))) \<and>
         1 \<le> fst (fabRequest bIndex) ! i \<and>
         fst (fabRequest bIndex) ! i \<le> nt_at (mFrequency s) i"
proof -
  from valid_amp [OF v] obtain a where a: "amp s = Inr a" "a \<noteq> []" by blast
  from valid_mFrequency [OF v] have F: "mFrequency s \<noteq> []" "\<forall>f\<in>set (mFrequency s). 1 < f"
    by blast+
  let ?D = "length fC"
  let ?plane = "\<lambda>i. map (\<lambda>c. map (\<lambda>x. (\<lfloor>x / nt_at a i\<rfloor> mod 65536 + c ! i)
                                       mod nt_at (mFrequency s) i) (rev fC ! i))
                        (findCorners ?D)"
  from fb findBounds_closed [OF a F(1), of fC]
  have bI: "bIndex = map ?plane [0..<?D]" by auto
  have Fpos: "0 < nt_at (mFrequency s) k" for k
    using nt_at_mem [OF F(1), of k] F(2) by force
  have plane_ne: "concat (?plane k) \<noteq> []" if "k < ?D" for k
  proof -
    from that rows have "rev fC ! k \<noteq> []"
      by (metis length_rev nth_mem set_rev)
    moreover have "findCorners ?D \<noteq> []"
      by (metis length_findCorners length_0_conv power_not_zero zero_neq_numeral)
    ultimately show ?thesis
      by (cases "findCorners ?D") auto
  qed
  have plane_rng: "0 \<le> e \<and> e < nt_at (mFrequency s) k" if "e \<in> set (concat (?plane k))" for e k
    using that Fpos [of k] by auto
  have ff: "findFab P s bIndex = Inr (P (seed s) (fst (fabRequest bIndex)) (snd (fabRequest bIndex)))"
    unfolding findFab_def bI using plane_ne by auto
  have len: "length (fst (fabRequest bIndex)) = ?D" "length (snd (fabRequest bIndex)) = ?D"
    unfolding bI by (simp_all add: fabRequest_def bFab_def)
  have sh: "fst (fabRequest bIndex) ! i
           = (Max (set (concat (bIndex ! i))) - Min (set (concat (bIndex ! i)))) + 1"
    and off: "snd (fabRequest bIndex) ! i = Min (set (concat (bIndex ! i)))"
    unfolding bI using i by (simp_all add: fabRequest_def bFab_def)
  have bi: "bIndex ! i = ?plane i"
    unfolding bI using i by simp
  let ?S = "set (concat (?plane i))"
  have fin: "finite ?S" "?S \<noteq> {}" using plane_ne [OF i] by simp_all
  have mm: "Max ?S \<in> ?S" "Min ?S \<in> ?S"
    by (rule Max_in [OF fin], rule Min_in [OF fin])
  then have "Max ?S < nt_at (mFrequency s) i" "0 \<le> Min ?S"
    using plane_rng by blast+
  moreover have "Min ?S \<le> Max ?S"
    by (rule Min_le [OF fin(1) mm(1)])
  ultimately have "1 \<le> Max ?S - Min ?S + 1" "Max ?S - Min ?S + 1 \<le> nt_at (mFrequency s) i"
    by linarith+
  with ff len sh off show ?thesis
    unfolding bi by simp
qed

lemma mFrequency_engine_4_2: "mFrequency (engine [4, 2] [4, 8]) = [4, 2]"
  by (simp add: mFrequency_def engine_def)

theorem findFab_window_witness:
  "valid (engine [4, 2] [4, 8]) \<and>
   findBounds (engine [4, 2] [4, 8]) [[3, 1, 7 / 2], [5, 100000, 2]]
     = Inr ([[[1, 0, 2], [1, 0, 2], [2, 1, 3], [2, 1, 3]],
             [[0, 0, 0], [1, 1, 1], [0, 0, 0], [1, 1, 1]]],
            [[3 / 4, 1 / 4, 7 / 8], [0, 65536, 0]]) \<and>
   fabRequest [[[1, 0, 2], [1, 0, 2], [2, 1, 3], [2, 1, 3]],
               [[0, 0, 0], [1, 1, 1], [0, 0, 0], [1, 1, 1]]] = ([4, 2], [0, 0]) \<and>
   (4 :: int) \<le> nt_at (mFrequency (engine [4, 2] [4, 8])) 0"
  using findFab_window [of "engine [4, 2] [4, 8]" "[[3, 1, 7 / 2], [5, 100000, 2]]"
      "[[[1, 0, 2], [1, 0, 2], [2, 1, 3], [2, 1, 3]], [[0, 0, 0], [1, 1, 1], [0, 0, 0], [1, 1, 1]]]"
      "[[3 / 4, 1 / 4, 7 / 8], [0, 65536, 0]]" 0]
  by (simp add: valid_engine_4_2 findBounds_far fabRequest_far nt_at_def mFrequency_engine_4_2)

section \<open>Periodicity\<close>










lemma nt_at_pos:
  fixes xs :: "'a :: linorder list"
  shows "xs \<noteq> [] \<Longrightarrow> \<forall>x\<in>set xs. c < x \<Longrightarrow> c < nt_at xs i"
  using nt_at_mem [of xs i] by blast













section \<open>Corner exactness\<close>



lemma length_corner: "c \<in> set (findCorners n) \<Longrightarrow> length c = n"
  by (induction n arbitrary: c) auto

lemma length_reshape2 [simp]: "length (reshape2 ps) = length ps div 2"
  by (induction ps rule: reshape2.induct) simp_all

lemma hd_reshape2: "2 \<le> length ps \<Longrightarrow> fst (hd (reshape2 ps)) = hd ps"
  by (cases ps rule: reshape2.cases) simp_all









lemma replicate_as_map: "replicate n c = map (\<lambda>v. c) [0..<n]"
  by (simp add: map_replicate_const)












section \<open>The range bound at a far coordinate\<close>

text \<open>The default warp maps the unit interval into itself, and the example lattice has its values in \<open>[0, 1)\<close>.\<close>

lemma improved_unit:
  assumes "0 \<le> t" "t \<le> 1"
  shows "0 \<le> improved t \<and> improved t \<le> 1"
proof -
  have f1: "improved t = t ^ 3 * (6 * (t - 5 / 4)\<^sup>2 + 5 / 8)"
    unfolding improved_def by algebra
  have f2: "1 - improved t = (1 - t) ^ 3 * (6 * t\<^sup>2 + 3 * t + 1)"
    unfolding improved_def by algebra
  have "0 \<le> t ^ 3 * (6 * (t - 5 / 4)\<^sup>2 + 5 / 8)"
    using assms(1) by (intro mult_nonneg_nonneg) (simp_all add: add_nonneg_nonneg)
  moreover have "0 \<le> (1 - t) ^ 3 * (6 * t\<^sup>2 + 3 * t + 1)"
    using assms by (intro mult_nonneg_nonneg add_nonneg_nonneg) simp_all
  ultimately show ?thesis using f1 f2 by linarith
qed

lemma grid4_unit: "0 \<le> grid4 sd idx \<and> grid4 sd idx < 1"
proof -
  have "0 \<le> sum_list idx mod 4" "sum_list idx mod 4 < 4" by simp_all
  then show ?thesis unfolding grid4_def by (simp add: divide_less_eq)
qed

text \<open>
  C2 at a coordinate the code can receive.  The engine has frequency 2, wave length 2
  (spacing 1), the default warp and the range \<open>(0, 1)\<close>; the lattice holds 0 at node 0
  and \<open>1/4\<close> at node 1.  At the coordinate 65536.5 the resolver's lower index is 0 and
  the offset handed to the warp is 65536.5, so the sample is a quarter of the warp's
  value there, far above the upper bound 1.
\<close>

theorem range_bound_violated:
  "range' (engine [2] [2]) = (0, 1) \<and> grid4 0 [0] = 0 \<and> grid4 0 [1] = 1 / 4 \<and>
   improved (131073 / 2) = 14507109832560800329613313 / 2 \<and>
   float32 (131073 / 2) = 131073 / 2 \<and>
   snd (call float32 (window grid4) (engine [2] [2]) [Scalar (131073 / 2)])
     = Inr [14507109832560800329613313 / 8] \<and>
   \<not> (14507109832560800329613313 / 8 \<le> (1 :: real))"
  by code_simp

section \<open>Validation\<close>

lemma ebind_eq_Inl: "ebind m f = Inl e \<longleftrightarrow> m = Inl e \<or> (\<exists>x. m = Inr x \<and> f x = Inl e)"
  by (cases m) simp_all

lemma py_gt_err: "py_gt v k = Inl e \<Longrightarrow> e = TypeError"
  by (cases v) simp_all

lemma all_frequency_err: "all_frequency fs = Inl e \<Longrightarrow> e = TypeError"
  by (induction fs) (auto split: sum.splits if_splits dest: py_gt_err)

lemma all_frequency_True:
  "all_frequency fs = Inr True \<Longrightarrow> \<forall>x\<in>set fs. isinstance_int x \<and> 1 < int_of x"
proof (induction fs)
  case Nil
  then show ?case by simp
next
  case (Cons f fs)
  then show ?case by (cases f) (auto simp: of_bool_def split: sum.splits if_splits)
qed

lemma all_waveLength_err: "all_waveLength ws = Inl e \<Longrightarrow> e = TypeError"
  by (induction ws) (auto split: sum.splits if_splits dest: py_gt_err)

lemma all_waveLength_True:
  "all_waveLength ws = Inr True \<Longrightarrow> \<forall>x\<in>set ws. isinstance_int_float x \<and> 0 < num_of x"
proof (induction ws)
  case Nil
  then show ?case by simp
next
  case (Cons w ws)
  then show ?case by (cases w) (auto simp: of_bool_def split: sum.splits if_splits)
qed

lemma getFrequency_err: "getFrequency v = Inl e \<Longrightarrow> e = AssertionError \<or> e = TypeError"
  by (auto simp: getFrequency_def Let_def ebind_eq_Inl simp del: all_frequency.simps
        split: if_splits pyval.splits dest: all_frequency_err)

lemma getFrequency_Inr:
  "getFrequency v = Inr fs \<Longrightarrow>
     (case v of VTuple vs \<Rightarrow> \<forall>x\<in>set vs. isinstance_int x \<and> 1 < int_of x
      | _ \<Rightarrow> isinstance_int v \<and> 1 < int_of v)"
  by (cases v)
     (auto simp: getFrequency_def Let_def ebind_eq_Inr of_bool_def
        split: if_splits sum.splits dest: all_frequency_True)

lemma getWaveLength_err: "getWaveLength v = Inl e \<Longrightarrow> e = AssertionError \<or> e = TypeError"
  by (auto simp: getWaveLength_def Let_def ebind_eq_Inl simp del: all_waveLength.simps
        split: if_splits pyval.splits dest: all_waveLength_err)

lemma getWaveLength_Inr:
  "getWaveLength v = Inr ws \<Longrightarrow>
     (case v of VTuple vs \<Rightarrow> \<forall>x\<in>set vs. isinstance_int_float x \<and> 0 < num_of x
      | _ \<Rightarrow> isinstance_int_float v \<and> 0 < num_of v)"
  by (cases v)
     (auto simp: getWaveLength_def Let_def ebind_eq_Inr of_bool_def
        split: if_splits sum.splits dest: all_waveLength_True)

lemma getWarp_err: "getWarp v = Inl e \<Longrightarrow> e = AssertionError"
  by (auto simp: getWarp_def Let_def split: if_splits pyval.splits)

lemma getRange_err: "getRange v = Inl e \<Longrightarrow> e = AssertionError \<or> e = TypeError"
  by (cases v) (auto simp: getRange_def ebind_eq_Inl split: if_splits)

lemma length_2_conv: "length vs = 2 \<longleftrightarrow> (\<exists>a b. vs = [a, b])"
  by (cases vs; cases "tl vs") auto

lemma getRange_Inr:
  "getRange v = Inr r \<Longrightarrow>
     \<exists>a b. (v = VTuple [a, b] \<or> v = VList [a, b]) \<and> isinstance_int_float a \<and> isinstance_int_float b"
  by (cases v) (auto simp: getRange_def ebind_eq_Inr length_2_conv split: if_splits)


lemma sequence_e_err: "sequence_e ms = Inl e \<Longrightarrow> Inl e \<in> set ms"
  by (induction ms) (auto simp: ebind_eq_Inl)

lemma nt_get_err: "nt_get xs i = Inl e \<Longrightarrow> e = IndexError"
  by (auto simp: nt_get_def split: if_splits)

lemma nt_take_err: "nt_take n xs = Inl e \<Longrightarrow> e = IndexError"
  unfolding nt_take_def by (auto dest!: sequence_e_err dest: nt_get_err [OF sym])

lemma amp_err: "amp s = Inl e \<Longrightarrow> e = ZeroDivisionError"
  unfolding amp_def by (auto dest!: sequence_e_err split: if_splits)

lemma set_slice_err: "set_slice row lo hi vs = Inl e \<Longrightarrow> e = ValueError"
  by (auto simp: set_slice_def split: if_splits)

lemma format_axis_err: "format_axis f32 n c row = Inl e \<Longrightarrow> e = ValueError \<or> e = IndexError"
  by (auto simp: format_axis_def Let_def ebind_eq_Inl split: if_splits dest: set_slice_err)

lemma formatCoords_err: "formatCoords f32 cs = Inl e \<Longrightarrow> e = ValueError \<or> e = IndexError"
  unfolding formatCoords_def Let_def
  by (auto simp: ebind_eq_Inl dest!: sequence_e_err dest: format_axis_err [OF sym])

lemma findBounds_err: "findBounds s fC = Inl e \<Longrightarrow> e = ZeroDivisionError \<or> e = IndexError"
  unfolding findBounds_def Let_def
  by (auto simp: ebind_eq_Inl dest: amp_err nt_take_err)

lemma findFab_err: "findFab P s bIndex = Inl e \<Longrightarrow> e = ValueError"
  by (auto simp: findFab_def split: if_splits)

lemma take_fab_err: "take_fab fab bIndex = Inl e \<Longrightarrow> e = IndexError"
  by (auto simp: take_fab_def split: option.splits)

lemma interpolation_err: "interpolation s pairs coords d = Inl e \<Longrightarrow> e = IndexError"
  by (auto simp: interpolation_def ebind_eq_Inl dest: nt_get_err)

lemma collapse_err: "collapse s bCoords dims ds pairs = Inl e \<Longrightarrow> e = IndexError"
  by (induction ds arbitrary: pairs) (auto simp: ebind_eq_Inl dest: interpolation_err)

lemma bNoise_err: "bNoise s bSpace bCoords = Inl e \<Longrightarrow> e = IndexError"
  by (auto simp: bNoise_def Let_def ebind_eq_Inl dest: interpolation_err collapse_err)

lemma call_err:
  "snd (call f32 P s cs) = Inl e \<Longrightarrow> e = ValueError \<or> e = IndexError \<or> e = ZeroDivisionError"
  unfolding call_def Let_def snd_conv
  by (auto simp: ebind_eq_Inl
      dest: formatCoords_err findBounds_err findFab_err take_fab_err bNoise_err)

lemma init_err: "init sd f w wp r m = Inl e \<Longrightarrow> e = AssertionError \<or> e = TypeError"
  unfolding init_def Let_def
  by (auto simp: ebind_eq_Inl dest: getFrequency_err getWaveLength_err getWarp_err getRange_err)

lemma init_Inr:
  "init sd f w wp r m = Inr s \<Longrightarrow>
     (\<exists>fs. getFrequency (if f = VNone then VInt 8 else f) = Inr fs) \<and>
     (\<exists>ws. getWaveLength (if w = VNone then VInt 128 else w) = Inr ws) \<and>
     (\<exists>p. getRange (if r = VNone then VTuple [VInt 0, VInt 1] else r) = Inr p)"
  unfolding init_def Let_def by (auto simp: ebind_eq_Inr)


text \<open>
  What the validators reject.  A frequency argument with an entry that is not an integer
  above 1 (the argument itself being the one entry when it is no tuple), a wave length
  argument with an entry that is not a number above 0, and a range argument that is
  neither a tuple nor a list of exactly two numbers are rejected by the validator, by
  the setter and, when given to it, by the constructor, with AssertionError or
  TypeError.  A sampling call ends in neither of the two.
\<close>

lemma validators_reject:
  "((case f of VTuple vs \<Rightarrow> \<exists>x\<in>set vs. \<not> (isinstance_int x \<and> 1 < int_of x)
             | _ \<Rightarrow> \<not> (isinstance_int f \<and> 1 < int_of f)) \<longrightarrow>
      getFrequency f \<in> {Inl AssertionError, Inl TypeError} \<and>
      setFrequency s f \<in> {Inl AssertionError, Inl TypeError} \<and>
      (f \<noteq> VNone \<longrightarrow> init sd f w wp r m \<in> {Inl AssertionError, Inl TypeError})) \<and>
   ((case w of VTuple vs \<Rightarrow> \<exists>x\<in>set vs. \<not> (isinstance_int_float x \<and> 0 < num_of x)
             | _ \<Rightarrow> \<not> (isinstance_int_float w \<and> 0 < num_of w)) \<longrightarrow>
      getWaveLength w \<in> {Inl AssertionError, Inl TypeError} \<and>
      setWaveLength s w \<in> {Inl AssertionError, Inl TypeError} \<and>
      (w \<noteq> VNone \<longrightarrow> init sd f w wp r m \<in> {Inl AssertionError, Inl TypeError})) \<and>
   (\<not> (\<exists>a b. (r = VTuple [a, b] \<or> r = VList [a, b]) \<and>
              isinstance_int_float a \<and> isinstance_int_float b) \<longrightarrow>
      getRange r \<in> {Inl AssertionError, Inl TypeError} \<and>
      setRange s r \<in> {Inl AssertionError, Inl TypeError} \<and>
      (r \<noteq> VNone \<longrightarrow> init sd f w wp r m \<in> {Inl AssertionError, Inl TypeError})) \<and>
   snd (call f32 P s cs) \<notin> {Inl AssertionError, Inl TypeError}"
proof -
  have rej: "x \<in> {Inl AssertionError, Inl TypeError}"
    if "\<And>y. x \<noteq> Inr y" "\<And>e. x = Inl e \<Longrightarrow> e = AssertionError \<or> e = TypeError"
    for x :: "error + 'a"
    using that by (cases x) auto
  have F: "getFrequency f \<in> {Inl AssertionError, Inl TypeError} \<and>
      setFrequency s f \<in> {Inl AssertionError, Inl TypeError} \<and>
      (f \<noteq> VNone \<longrightarrow> init sd f w wp r m \<in> {Inl AssertionError, Inl TypeError})"
    if bad: "case f of VTuple vs \<Rightarrow> \<exists>x\<in>set vs. \<not> (isinstance_int x \<and> 1 < int_of x)
             | _ \<Rightarrow> \<not> (isinstance_int f \<and> 1 < int_of f)"
  proof -
    have no: "getFrequency f \<noteq> Inr y" for y
      using getFrequency_Inr [of f y] bad by (cases f) auto
    then have 1: "getFrequency f \<in> {Inl AssertionError, Inl TypeError}"
      by (intro rej) (auto dest: getFrequency_err)
    then have 2: "setFrequency s f \<in> {Inl AssertionError, Inl TypeError}"
      by (auto simp: setFrequency_def)
    have 3: "init sd f w wp r m \<in> {Inl AssertionError, Inl TypeError}" if "f \<noteq> VNone"
      using init_Inr [of sd f w wp r m] no that by (intro rej) (auto dest: init_err)
    from 1 2 3 show ?thesis by blast
  qed
  have W: "getWaveLength w \<in> {Inl AssertionError, Inl TypeError} \<and>
      setWaveLength s w \<in> {Inl AssertionError, Inl TypeError} \<and>
      (w \<noteq> VNone \<longrightarrow> init sd f w wp r m \<in> {Inl AssertionError, Inl TypeError})"
    if bad: "case w of VTuple vs \<Rightarrow> \<exists>x\<in>set vs. \<not> (isinstance_int_float x \<and> 0 < num_of x)
             | _ \<Rightarrow> \<not> (isinstance_int_float w \<and> 0 < num_of w)"
  proof -
    have no: "getWaveLength w \<noteq> Inr y" for y
      using getWaveLength_Inr [of w y] bad by (cases w) auto
    then have 1: "getWaveLength w \<in> {Inl AssertionError, Inl TypeError}"
      by (intro rej) (auto dest: getWaveLength_err)
    then have 2: "setWaveLength s w \<in> {Inl AssertionError, Inl TypeError}"
      by (auto simp: setWaveLength_def)
    have 3: "init sd f w wp r m \<in> {Inl AssertionError, Inl TypeError}" if "w \<noteq> VNone"
      using init_Inr [of sd f w wp r m] no that by (intro rej) (auto dest: init_err)
    from 1 2 3 show ?thesis by blast
  qed
  have R: "getRange r \<in> {Inl AssertionError, Inl TypeError} \<and>
      setRange s r \<in> {Inl AssertionError, Inl TypeError} \<and>
      (r \<noteq> VNone \<longrightarrow> init sd f w wp r m \<in> {Inl AssertionError, Inl TypeError})"
    if bad: "\<not> (\<exists>a b. (r = VTuple [a, b] \<or> r = VList [a, b]) \<and>
              isinstance_int_float a \<and> isinstance_int_float b)"
  proof -
    have no: "getRange r \<noteq> Inr y" for y
      using getRange_Inr [of r y] bad by blast
    then have 1: "getRange r \<in> {Inl AssertionError, Inl TypeError}"
      by (intro rej) (auto dest: getRange_err)
    then have 2: "setRange s r \<in> {Inl AssertionError, Inl TypeError}"
      by (auto simp: setRange_def)
    have 3: "init sd f w wp r m \<in> {Inl AssertionError, Inl TypeError}" if "r \<noteq> VNone"
      using init_Inr [of sd f w wp r m] no that by (intro rej) (auto dest: init_err)
    from 1 2 3 show ?thesis by blast
  qed
  have C: "snd (call f32 P s cs) \<notin> {Inl AssertionError, Inl TypeError}"
    using call_err [of f32 P s cs] by auto
  from F W R C show ?thesis by blast
qed

text \<open>
  C8 at an argument the code can receive.  \<open>__getRange\<close> asks for the length and the
  type of the two items of its argument, not for the argument to be a tuple, as its
  message has it (\<open>must be a tuple of two 'float'('int')\<close>) and as the validators of
  frequency, wave length and warp do for theirs.  The list \<open>[0, 1]\<close> is accepted as a
  range by the validator, by \<open>setRange\<close> and by the constructor, while the lists
  \<open>[8]\<close> and \<open>[128]\<close> are rejected as frequency and as wave length.
\<close>

theorem getRange_accepts_list:
  "getRange (VList [VInt 0, VInt 1]) = Inr ((0, 1), 1) \<and>
   setRange (engine [8] [128]) (VList [VInt 0, VInt 1]) = Inr (engine [8] [128]) \<and>
   init 0 VNone VNone VNone (VList [VInt 0, VInt 1]) 1 = Inr (engine [8] [128]) \<and>
   getRange (VTuple [VInt 0, VInt 1]) = Inr ((0, 1), 1) \<and>
   getFrequency (VList [VInt 8]) = Inl AssertionError \<and>
   getWaveLength (VList [VInt 128]) = Inl AssertionError"
  by (simp add: getFrequency_def getWaveLength_def getWarp_def getRange_def setRange_def
        init_def engine_def)

end
